theory Spec2Isabelle
  imports Main "HOL-Library.Sublist"
begin

section \<open>Python string primitives used by the script\<close>

text \<open>
  Python strings are modelled as \<open>string\<close> (lists of characters). Only the string
  methods the script calls are defined: \<open>str.startswith\<close>, \<open>str.endswith\<close>,
  \<open>str.partition\<close> with a one-character separator, \<open>str.removesuffix\<close>, the slice
  \<open>s[:-2]\<close> and \<open>str(n)\<close> for a non-negative integer.
\<close>

definition startswith :: "string \<Rightarrow> string \<Rightarrow> bool" where
  "startswith s p = (take (length p) s = p)"

definition endswith :: "string \<Rightarrow> string \<Rightarrow> bool" where
  "endswith s p = (length p \<le> length s \<and> drop (length s - length p) s = p)"

text \<open>\<open>s.partition(c)\<close>: the part before the first \<open>c\<close>, the separator, the part after
  it; \<open>(s, "", "")\<close> when \<open>c\<close> does not occur.\<close>

definition str_partition :: "string \<Rightarrow> char \<Rightarrow> string \<times> string \<times> string" where
  "str_partition s c =
     (if c \<in> set s
      then (takeWhile (\<lambda>x. x \<noteq> c) s, [c], tl (dropWhile (\<lambda>x. x \<noteq> c) s))
      else (s, [], []))"

definition removesuffix :: "string \<Rightarrow> string \<Rightarrow> string" where
  "removesuffix s suf =
     (if suf \<noteq> [] \<and> endswith s suf then take (length s - length suf) s else s)"

text \<open>The slice \<open>s[:-2]\<close>: all but the last two characters (empty when there are fewer).\<close>

definition drop_last2 :: "string \<Rightarrow> string" where
  "drop_last2 s = take (length s - 2) s"

function str_nat :: "nat \<Rightarrow> string" where
  "str_nat n =
     (if n < 10 then [''0123456789'' ! n]
      else str_nat (n div 10) @ [''0123456789'' ! (n mod 10)])"
  by pat_completeness auto
termination
  by (relation "measure (\<lambda>n. n)") auto

declare str_nat.simps [simp del]

section \<open>Data model\<close>

text \<open>
  A raw finding as the scanning service reports it; the fields are the attributes that
  \<open>list_snyk_vulnerabilities\<close> reads (\<open>id\<close>, \<open>issueData.title\<close>, \<open>issueData.url\<close>,
  \<open>pkgName\<close>, \<open>pkgVersions\<close>, \<open>fixInfo.fixedIn\<close>, \<open>issueData.cvssScore\<close>,
  \<open>issueData.identifiers\<close>, \<open>issueData.severity\<close>). The CVSS score is a float that the
  script only copies and prints, so it is carried in its printed form. The identifier
  dictionary is an association list with distinct keys.
\<close>

record snyk_vulnerability =
  raw_id :: string
  issueData_title :: string
  issueData_url :: string
  pkgName :: string
  pkgVersions :: "string list"
  fixInfo_fixedIn :: "string list"
  issueData_cvssScore :: string
  issueData_identifiers :: "(string \<times> string list) list"
  issueData_severity :: string

text \<open>Class \<open>VulnerabilityData\<close>; each field is named after its getter.\<close>

record VulnerabilityData =
  get_id :: string
  get_jira_snyk_id :: string
  get_title :: string
  get_url :: string
  get_project_branch :: string
  get_package_name :: string
  get_package_version :: "string list"
  get_fixed_in :: "string list"
  get_project_name :: string
  get_file_path :: string
  get_component_list :: "string list"
  get_cvss_score :: string
  get_identifiers :: "(string \<times> string list) list"
  get_severity :: string

text \<open>A tracked issue, read only through \<open>issue.fields.labels\<close>.\<close>

record jira_issue =
  fields_labels :: "string list"

text \<open>The configuration held by class \<open>JiraClient\<close>; a field read through a getter
  is named after it, the component list after its attribute. The dry-run flag is read
  only for its truth value.\<close>

record JiraClient =
  get_jira_label_prefix :: string
  get_project_id :: string
  jira_component_list :: "string list"
  is_dry_run :: bool

text \<open>The scanned project: \<open>name\<close>, \<open>branch\<close>, \<open>id\<close>, \<open>organization.slug\<close> and the
  findings of \<open>issueset_aggregated.all().issues\<close>.\<close>

record snyk_project =
  p_name :: string
  p_branch :: string
  p_id :: string
  p_organization_slug :: string
  p_issues :: "snyk_vulnerability list"

text \<open>The dictionary that \<open>create_jira_issues\<close> builds for one finding. A component
  is the dictionary \<open>{"name": component}\<close>, the issue type is \<open>{'name': 'Bug'}\<close>.\<close>

record jira_issue_fields =
  project :: string
  summary :: string
  description :: string
  components :: "(string \<times> string) list list"
  duedate :: string
  issuetype :: "(string \<times> string) list"
  labels :: "string list"

section \<open>Effects\<close>

text \<open>
  Every effect of the script is an event appended to a trace: log lines, the one
  \<open>print\<close>, and the three calls to the issue tracker. An exception is a value.
\<close>

datatype py_exception = SystemError | TypeError | KeyError | Re_error | RemoteError string

datatype event =
    Log_info string
  | Log_error string
  | Print string
  | Search_issues string nat nat
  | Create_issues "jira_issue_fields list"
  | Add_issues_to_epic string "string list"

text \<open>
  What lies outside the repository is a parameter: the clock and date formatting
  (\<open>datetime.today\<close>, \<open>strftime\<close>), Python's printing of a list, \<open>re.search\<close>, which
  answers whether the pattern matches or raises \<open>re.error\<close> on an ill-formed pattern,
  and the issue tracker, whose answer to a call may depend on the calls made before it
  (the trace) and may be an exception. A created issue is the dictionary the tracker
  library returns, as an association list from key to the printed value.
\<close>

record environment =
  today :: nat
  strftime :: "nat \<Rightarrow> string"
  str_list :: "string list \<Rightarrow> string"
  re_search :: "string \<Rightarrow> string \<Rightarrow> py_exception + bool"
  search_issues :: "event list \<Rightarrow> string \<Rightarrow> nat \<Rightarrow> nat \<Rightarrow> py_exception + jira_issue list"
  create_issues ::
    "event list \<Rightarrow> jira_issue_fields list \<Rightarrow> py_exception + (string \<times> string) list list"
  add_issues_to_epic :: "event list \<Rightarrow> string \<Rightarrow> string list \<Rightarrow> py_exception option"

section \<open>Methods of \<open>VulnerabilityData\<close>\<close>

definition str_optional_list :: "environment \<Rightarrow> string list option \<Rightarrow> string" where
  "str_optional_list env x = (case x of None \<Rightarrow> ''None'' | Some xs \<Rightarrow> str_list env xs)"

definition get_jira_description ::
  "environment \<Rightarrow> VulnerabilityData \<Rightarrow> string \<Rightarrow> string \<Rightarrow> string" where
  "get_jira_description env self snyk_org_slug snyk_project_id =
     (let cve = map_of (get_identifiers self) ''CVE''
      in ''Found vulnerability in *'' @ get_project_name self @ ''* project, in file *''
         @ get_file_path self @ ''*, '' @ ''in branch *'' @ get_project_branch self
         @ ''*. '' @ [CHR 0x0A, CHR 0x0A]
         @ ''Severity: '' @ get_severity self @ ''. '' @ [CHR 0x0A, CHR 0x0A]
         @ ''Package name: '' @ get_package_name self @ '' '' @ [CHR 0x0A, CHR 0x0A]
         @ ''Package version: '' @ str_list env (get_package_version self) @ '' ''
         @ [CHR 0x0A, CHR 0x0A]
         @ ''Fixed in: '' @ str_list env (get_fixed_in self) @ '' '' @ [CHR 0x0A, CHR 0x0A]
         @ ''Vulnerability URL: '' @ get_url self @ ''. '' @ [CHR 0x0A, CHR 0x0A]
         @ ''CSSV score: '' @ get_cvss_score self @ ''. '' @ [CHR 0x0A, CHR 0x0A]
         @ ''CVE Identifier: '' @ str_optional_list env cve @ ''. '' @ [CHR 0x0A, CHR 0x0A]
         @ ''More info can be found in https://app.snyk.io/org/'' @ snyk_org_slug
         @ ''/project/'' @ snyk_project_id @ ''#issue-'' @ get_id self @ ''. ''
         @ [CHR 0x0A])"

text \<open>\<open>if cve:\<close> holds for a present, non-empty list, whose first element is then used.\<close>

definition get_jira_summary :: "VulnerabilityData \<Rightarrow> string" where
  "get_jira_summary self =
     (let cve = map_of (get_identifiers self) ''CVE'';
          summary = ''Snyk - '';
          summary = (case cve of
                       Some (c # cs) \<Rightarrow> summary @ ''['' @ c @ ''] - ''
                     | _ \<Rightarrow> summary)
      in summary @ ''['' @ get_severity self @ ''] - ['' @ get_project_branch self
         @ ''] - '' @ get_project_name self @ '' - '' @ get_file_path self @ '' - ''
         @ get_title self)"

definition calculate_due_date :: "environment \<Rightarrow> VulnerabilityData \<Rightarrow> string" where
  "calculate_due_date env self =
     (let number_of_days = (if get_severity self = ''critical'' then 7 else 30)
      in strftime env (today env + number_of_days))"

section \<open>Building the findings and the tracker query\<close>

definition VULNERABILITY_SEVERITIES :: "string list" where
  "VULNERABILITY_SEVERITIES = [''critical'', ''high'']"

text \<open>The tracking identity, the f-string of \<open>list_snyk_vulnerabilities\<close>.\<close>

definition jira_snyk_id_of :: "string \<Rightarrow> string \<Rightarrow> string \<Rightarrow> string \<Rightarrow> string \<Rightarrow> string" where
  "jira_snyk_id_of label_prefix project_name file_name project_branch vulnerability_id =
     label_prefix @ project_name @ '':'' @ file_name @ '':'' @ project_branch @ '':''
     @ vulnerability_id"

definition vulnerability_obj ::
  "snyk_vulnerability \<Rightarrow> string \<Rightarrow> string \<Rightarrow> string \<Rightarrow> JiraClient \<Rightarrow> VulnerabilityData" where
  "vulnerability_obj vulnerability project_branch project_name file_name jira_client =
     \<lparr>get_id = raw_id vulnerability,
      get_jira_snyk_id =
        jira_snyk_id_of (get_jira_label_prefix jira_client) project_name file_name
          project_branch (raw_id vulnerability),
      get_title = issueData_title vulnerability,
      get_url = issueData_url vulnerability,
      get_project_branch = project_branch,
      get_package_name = pkgName vulnerability,
      get_package_version = pkgVersions vulnerability,
      get_fixed_in = fixInfo_fixedIn vulnerability,
      get_project_name = project_name,
      get_file_path = file_name,
      get_component_list = jira_component_list jira_client,
      get_cvss_score = issueData_cvssScore vulnerability,
      get_identifiers = issueData_identifiers vulnerability,
      get_severity = issueData_severity vulnerability\<rparr>"

text \<open>One clause of the query, \<open> labels="<identity>" OR\<close>.\<close>

definition query_clause :: "string \<Rightarrow> string" where
  "query_clause jira_snyk_id = '' labels='' @ [CHR 0x22] @ jira_snyk_id @ [CHR 0x22] @ '' OR''"

text \<open>The loop of \<open>list_snyk_vulnerabilities\<close>, over the pair of its two accumulators.\<close>

fun list_snyk_loop ::
  "snyk_vulnerability list \<Rightarrow> string \<Rightarrow> string \<Rightarrow> string \<Rightarrow> JiraClient \<Rightarrow>
   VulnerabilityData list \<times> string \<Rightarrow> VulnerabilityData list \<times> string" where
  "list_snyk_loop [] project_branch project_name file_name jira_client acc = acc"
| "list_snyk_loop (vulnerability # rest) project_branch project_name file_name jira_client
     (patchable_vulnerabilities, jira_query) =
     (let obj = vulnerability_obj vulnerability project_branch project_name file_name
                  jira_client
      in list_snyk_loop rest project_branch project_name file_name jira_client
           (patchable_vulnerabilities @ [obj],
            jira_query @ query_clause (get_jira_snyk_id obj)))"

definition list_snyk_vulnerabilities ::
  "snyk_vulnerability list \<Rightarrow> string \<Rightarrow> string \<Rightarrow> string \<Rightarrow> JiraClient \<Rightarrow>
   VulnerabilityData list \<times> string" where
  "list_snyk_vulnerabilities vulnerabilities project_branch project_name file_name
     jira_client =
     (case list_snyk_loop vulnerabilities project_branch project_name file_name jira_client
             ([], ''project='' @ get_project_id jira_client @ '' AND ('') of
        (patchable_vulnerabilities, jira_query) \<Rightarrow>
          (patchable_vulnerabilities, drop_last2 jira_query @ '')''))"

section \<open>The reconciler\<close>

text \<open>The set \<open>jira_issue_labels\<close> that the two nested loops of \<open>compare_jira_snyk\<close>
  fill.\<close>

definition collect_labels :: "jira_issue list \<Rightarrow> string \<Rightarrow> string set" where
  "collect_labels jira_issues label_prefix =
     fold (\<lambda>issue acc.
             fold (\<lambda>label acc'. if startswith label label_prefix then insert label acc'
                                 else acc')
               (fields_labels issue) acc)
       jira_issues {}"

definition compare_jira_snyk ::
  "VulnerabilityData list \<Rightarrow> jira_issue list \<Rightarrow> string \<Rightarrow> VulnerabilityData list" where
  "compare_jira_snyk vulnerabilities jira_issues label_prefix =
     (let jira_issue_labels = collect_labels jira_issues label_prefix
      in filter (\<lambda>v. get_jira_snyk_id v \<notin> jira_issue_labels) vulnerabilities)"

section \<open>Name parsing and the exclusion filter\<close>

definition parse_project_name :: "string \<Rightarrow> string \<Rightarrow> string" where
  "parse_project_name project_name branch_name =
     removesuffix (fst (str_partition project_name (CHR '':'')))
       (''('' @ branch_name @ '')'')"

definition parse_file_name :: "string \<Rightarrow> string" where
  "parse_file_name project_name = snd (snd (str_partition project_name (CHR '':'')))"

fun exclude_file :: "environment \<Rightarrow> string \<Rightarrow> string list \<Rightarrow> py_exception + bool" where
  "exclude_file env file_name [] = Inr False"
| "exclude_file env file_name (excluded_file # rest) =
     (case re_search env excluded_file file_name of
        Inl e \<Rightarrow> Inl e
      | Inr found \<Rightarrow> if found then Inr True else exclude_file env file_name rest)"

section \<open>The tracker calls of \<open>JiraClient\<close>\<close>

text \<open>
  A function with effects takes the trace so far and returns its result (\<open>Inl\<close> an
  exception that leaves the function, \<open>Inr\<close> the returned value) with the extended
  trace. A tracker call is recorded before its answer is read.
\<close>

text \<open>\<open>list_existing_jira_issues\<close> returns the issues of one search together with the
  literal \<open>False\<close>.\<close>

definition list_existing_jira_issues ::
  "environment \<Rightarrow> string \<Rightarrow> nat \<Rightarrow> nat \<Rightarrow> event list \<Rightarrow>
   (py_exception + jira_issue list \<times> bool) \<times> event list" where
  "list_existing_jira_issues env jira_query start_at max_results tr =
     (case search_issues env tr jira_query start_at max_results of
        Inl e \<Rightarrow> (Inl e, tr @ [Search_issues jira_query start_at max_results])
      | Inr issues \<Rightarrow>
          (Inr (issues, False), tr @ [Search_issues jira_query start_at max_results]))"

definition get_component_dict_list :: "string \<Rightarrow> (string \<times> string) list" where
  "get_component_dict_list component = [(''name'', component)]"

definition jira_issue_of ::
  "environment \<Rightarrow> VulnerabilityData \<Rightarrow> string \<Rightarrow> string \<Rightarrow> string \<Rightarrow> jira_issue_fields" where
  "jira_issue_of env vulnerability jira_project_id snyk_project_id snyk_org_slug =
     \<lparr>project = jira_project_id,
      summary = get_jira_summary vulnerability,
      description = get_jira_description env vulnerability snyk_org_slug snyk_project_id,
      components = map get_component_dict_list (get_component_list vulnerability),
      duedate = calculate_due_date env vulnerability,
      issuetype = [(''name'', ''Bug'')],
      labels = [get_jira_snyk_id vulnerability]\<rparr>"

text \<open>The loop that logs every created issue; \<open>issue['issue']\<close> raises \<open>KeyError\<close> when
  the key is missing.\<close>

fun log_created_issues ::
  "(string \<times> string) list list \<Rightarrow> event list \<Rightarrow> (py_exception + unit) \<times> event list" where
  "log_created_issues [] tr = (Inr (), tr)"
| "log_created_issues (issue # rest) tr =
     (case map_of issue ''issue'' of
        None \<Rightarrow> (Inl KeyError, tr)
      | Some k \<Rightarrow> log_created_issues rest (tr @ [Log_info (''Created JIRA issue key: '' @ k)]))"

text \<open>
  The body of the \<open>try\<close> of \<open>create_jira_issues\<close>. The keys collected from a created
  issue are the keys of its dictionary. The last statement indexes the string
  \<open>jira_epic_id\<close> with a string, which raises \<open>TypeError\<close> before anything is logged.
\<close>

definition create_and_link ::
  "environment \<Rightarrow> jira_issue_fields list \<Rightarrow> string \<Rightarrow> event list \<Rightarrow>
   (py_exception + unit) \<times> event list" where
  "create_and_link env jira_issues_to_create jira_epic_id tr =
     (case create_issues env tr jira_issues_to_create of
        Inl e \<Rightarrow> (Inl e, tr @ [Create_issues jira_issues_to_create])
      | Inr created_jira_issues \<Rightarrow>
          (let tr1 = tr @ [Create_issues jira_issues_to_create];
               issue_keys = concat (map (map fst) created_jira_issues);
               tr2 = tr1 @ [Add_issues_to_epic jira_epic_id issue_keys]
           in case add_issues_to_epic env tr1 jira_epic_id issue_keys of
                Some e \<Rightarrow> (Inl e, tr2)
              | None \<Rightarrow>
                  (case log_created_issues created_jira_issues tr2 of
                     (Inl e, tr3) \<Rightarrow> (Inl e, tr3)
                   | (Inr u, tr3) \<Rightarrow> (Inl TypeError, tr3))))"

definition create_jira_issues ::
  "environment \<Rightarrow> JiraClient \<Rightarrow> VulnerabilityData list \<Rightarrow> string \<Rightarrow> string \<Rightarrow> string \<Rightarrow>
   string \<Rightarrow> event list \<Rightarrow> (py_exception + unit) \<times> event list" where
  "create_jira_issues env self vulnerabilities_to_create jira_project_id snyk_project_id
     snyk_org_slug jira_epic_id tr =
     (let jira_issues_to_create =
            map (\<lambda>vulnerability.
                   jira_issue_of env vulnerability jira_project_id snyk_project_id
                     snyk_org_slug)
              vulnerabilities_to_create
      in if \<not> is_dry_run self then
           (case create_and_link env jira_issues_to_create jira_epic_id tr of
              (Inl SystemError, tr1) \<Rightarrow>
                (Inr (), tr1 @ [Log_error ''failed to create jira issues''])
            | (r, tr1) \<Rightarrow> (r, tr1))
         else
           (Inr (),
            tr @ [Print (''dry run. No issues created. (''
                         @ str_nat (length jira_issues_to_create)
                         @ '' issues would be created)'')]))"

section \<open>The orchestrator\<close>

text \<open>
  The \<open>while load_more\<close> loop of \<open>process_vulnerabilities\<close>, with its variables
  \<open>load_more\<close> and \<open>start_at\<close> as arguments (\<open>max_results\<close> is the constant 50). The
  loop has no bound of its own, so it is a partial function: \<open>None\<close> is a run that
  never returns.
\<close>

partial_function (option) process_vulnerabilities_loop ::
  "environment \<Rightarrow> JiraClient \<Rightarrow> VulnerabilityData list \<Rightarrow> string \<Rightarrow> string \<Rightarrow> string \<Rightarrow>
   string \<Rightarrow> bool \<Rightarrow> nat \<Rightarrow> event list \<Rightarrow> ((py_exception + unit) \<times> event list) option" where
  "process_vulnerabilities_loop env jira_client vulnerabilities_to_compare_list jira_query
     project_id snyk_org_slug jira_epic_id load_more start_at tr =
     (if load_more then
        (case list_existing_jira_issues env jira_query start_at 50 tr of
           (Inl e, tr1) \<Rightarrow> Some (Inl e, tr1)
         | (Inr (jira_issues, load_more'), tr1) \<Rightarrow>
             (let vulnerabilities_to_create_list =
                    compare_jira_snyk vulnerabilities_to_compare_list jira_issues
                      (get_jira_label_prefix jira_client)
              in if vulnerabilities_to_create_list \<noteq> [] then
                   (case create_jira_issues env jira_client vulnerabilities_to_create_list
                           (get_project_id jira_client) project_id snyk_org_slug
                           jira_epic_id tr1 of
                      (Inl e, tr2) \<Rightarrow> Some (Inl e, tr2)
                    | (Inr u, tr2) \<Rightarrow>
                        process_vulnerabilities_loop env jira_client
                          vulnerabilities_to_compare_list jira_query project_id
                          snyk_org_slug jira_epic_id load_more' (start_at + 50) tr2)
                 else
                   process_vulnerabilities_loop env jira_client
                     vulnerabilities_to_compare_list jira_query project_id snyk_org_slug
                     jira_epic_id load_more' start_at tr1))
      else Some (Inr (), tr))"

definition process_vulnerabilities ::
  "environment \<Rightarrow> JiraClient \<Rightarrow> VulnerabilityData list \<Rightarrow> string \<Rightarrow> string \<Rightarrow> string \<Rightarrow>
   string \<Rightarrow> event list \<Rightarrow> ((py_exception + unit) \<times> event list) option" where
  "process_vulnerabilities env jira_client vulnerabilities_to_compare_list jira_query
     project_id snyk_org_slug jira_epic_id tr =
     process_vulnerabilities_loop env jira_client vulnerabilities_to_compare_list
       jira_query project_id snyk_org_slug jira_epic_id True 0 tr"

text \<open>
  \<open>process_projects\<close>. The exclusion mapping is a dictionary from artifact name to a
  list of patterns; \<open>excluded_files and exclude_file(...)\<close> calls \<open>exclude_file\<close> for a
  present, non-empty list. An exception of the pattern search leaves the function;
  a match only writes a log line. \<open>process_projects_rest\<close> is the part of the body
  after that statement.
\<close>

definition process_projects_rest ::
  "environment \<Rightarrow> JiraClient \<Rightarrow> snyk_project \<Rightarrow> string \<Rightarrow> string \<Rightarrow> string \<Rightarrow>
   event list \<Rightarrow> ((py_exception + unit) \<times> event list) option" where
  "process_projects_rest env jira_client proj project_name file_name jira_epic_id tr1 =
     (if p_issues proj \<noteq> [] then
        (let tr2 = tr1 @ [Log_info (''looking for vulnerabilities in: '' @ project_name
                            @ '', file: '' @ file_name @ '', branch: '' @ p_branch proj)]
         in case list_snyk_vulnerabilities (p_issues proj) (p_branch proj) project_name
                   file_name jira_client of
              (vulnerabilities_to_compare_list, jira_query) \<Rightarrow>
                if vulnerabilities_to_compare_list \<noteq> [] then
                  process_vulnerabilities env jira_client vulnerabilities_to_compare_list
                    jira_query (p_id proj) (p_organization_slug proj) jira_epic_id tr2
                else Some (Inr (), tr2))
      else Some (Inr (), tr1))"

definition process_projects ::
  "environment \<Rightarrow> JiraClient \<Rightarrow> snyk_project \<Rightarrow> (string \<rightharpoonup> string list) \<Rightarrow> string \<Rightarrow>
   event list \<Rightarrow> ((py_exception + unit) \<times> event list) option" where
  "process_projects env jira_client proj exclude_files jira_epic_id tr =
     (let project_name = parse_project_name (p_name proj) (p_branch proj);
          file_name = parse_file_name (p_name proj);
          excluded_files = exclude_files project_name
      in case excluded_files of
           None \<Rightarrow>
             process_projects_rest env jira_client proj project_name file_name jira_epic_id tr
         | Some patterns \<Rightarrow>
             if patterns \<noteq> [] then
               (case exclude_file env file_name patterns of
                  Inl e \<Rightarrow> Some (Inl e, tr)
                | Inr excluded \<Rightarrow>
                    if excluded then
                      process_projects_rest env jira_client proj project_name file_name
                        jira_epic_id
                        (tr @ [Log_info (''skipping file '' @ file_name
                                 @ '', because of the record in exclude_file.json'')])
                    else
                      process_projects_rest env jira_client proj project_name file_name
                        jira_epic_id tr)
             else
               process_projects_rest env jira_client proj project_name file_name
                 jira_epic_id tr)"

section \<open>Reference predicates and example inputs\<close>

text \<open>
  The reconciler's contract in the words of its description: an identity is tracked
  when some label of some tracked issue starts with the label prefix and equals it.
\<close>

definition spec_tracked :: "jira_issue list \<Rightarrow> string \<Rightarrow> string \<Rightarrow> bool" where
  "spec_tracked jira_issues label_prefix ident =
     list_ex (\<lambda>issue. list_ex (\<lambda>label. startswith label label_prefix \<and> label = ident)
                        (fields_labels issue)) jira_issues"

text \<open>
  The disjunction of a query written out for a list of identities: the clauses
  \<open> labels="<identity>" \<close>, each with a blank on either side, separated by \<open>OR\<close>.
\<close>

fun or_clauses :: "string list \<Rightarrow> string" where
  "or_clauses [] = []"
| "or_clauses [i] = '' labels='' @ [CHR 0x22] @ i @ [CHR 0x22] @ '' ''"
| "or_clauses (i # j # rest) =
     '' labels='' @ [CHR 0x22] @ i @ [CHR 0x22] @ '' OR'' @ or_clauses (j # rest)"

text \<open>The events that are calls to the issue tracker.\<close>

fun is_tracker_call :: "event \<Rightarrow> bool" where
  "is_tracker_call (Search_issues q s m) = True"
| "is_tracker_call (Create_issues reqs) = True"
| "is_tracker_call (Add_issues_to_epic epic ks) = True"
| "is_tracker_call e = False"

text \<open>
  Concrete inputs for the examples below. The example environment stands in for what
  is outside the repository: its pattern search raises on the ill-formed pattern \<open>(\<close>
  and is otherwise \<open>find_literal\<close>, which is \<open>re.search\<close> for a pattern without
  metacharacters (a substring search); the date and list printers are arbitrary, and
  the tracker holds a fixed list of issues, all of which match every query, and serves
  them in pages (\<open>startAt\<close>, \<open>maxResults\<close>).
\<close>

fun find_literal :: "string \<Rightarrow> string \<Rightarrow> bool" where
  "find_literal pattern [] = (pattern = [])"
| "find_literal pattern (c # cs) =
     (if startswith (c # cs) pattern then True else find_literal pattern cs)"

definition example_env :: "jira_issue list \<Rightarrow> environment" where
  "example_env tracked =
     \<lparr>today = 19000, strftime = str_nat, str_list = concat,
      re_search = (\<lambda>pattern s. if pattern = ''('' then Inl Re_error
                                else Inr (find_literal pattern s)),
      search_issues = (\<lambda>tr jql start_at max_results.
                         Inr (take max_results (drop start_at tracked))),
      create_issues = (\<lambda>tr reqs.
                         Inr (map (\<lambda>r. [(''status'', ''Success''), (''error'', ''None''),
                                         (''issue'', ''PROJ-1''), (''input_fields'', ''{}'')])
                                reqs)),
      add_issues_to_epic = (\<lambda>tr epic ks. None)\<rparr>"

definition example_client :: "bool \<Rightarrow> JiraClient" where
  "example_client dry =
     \<lparr>get_jira_label_prefix = ''p:'', get_project_id = ''PROJ'',
      jira_component_list = [''scanner''], is_dry_run = dry\<rparr>"

definition example_raw :: "string \<Rightarrow> string \<Rightarrow> snyk_vulnerability" where
  "example_raw vid sev =
     \<lparr>raw_id = vid, issueData_title = ''Buffer overflow'',
      issueData_url = ''https://snyk.io/vuln/'' @ vid, pkgName = ''openssl'',
      pkgVersions = [''1.0.1''], fixInfo_fixedIn = [''1.0.2''],
      issueData_cvssScore = ''7.5'',
      issueData_identifiers = [(''CVE'', [''CVE-2022-0001''])],
      issueData_severity = sev\<rparr>"

definition example_finding :: "string \<Rightarrow> VulnerabilityData" where
  "example_finding vid =
     vulnerability_obj (example_raw vid ''high'') ''main'' ''org/repo'' ''Dockerfile''
       (example_client True)"

definition example_project :: "snyk_vulnerability list \<Rightarrow> snyk_project" where
  "example_project found =
     \<lparr>p_name = ''org/repo(main):Dockerfile'', p_branch = ''main'',
      p_id = ''snyk-project-1'', p_organization_slug = ''my-org'', p_issues = found\<rparr>"

definition labelled :: "string list \<Rightarrow> jira_issue" where
  "labelled ls = \<lparr>fields_labels = ls\<rparr>"

text \<open>A tracker with one hundred matching issues: two full pages of fifty, then an
  empty page. Only the last issue of the second page carries the label of \<open>SNYK-1\<close>.\<close>

definition two_full_pages :: "jira_issue list" where
  "two_full_pages =
     replicate 50 (labelled [''p:org/repo:Dockerfile:main:SNYK-0''])
     @ replicate 49 (labelled [''p:org/repo:Dockerfile:main:SNYK-0''])
     @ [labelled [''p:org/repo:Dockerfile:main:SNYK-1'']]"

text \<open>The query that the builder yields for the findings \<open>SNYK-0\<close> and \<open>SNYK-1\<close> of the
  example artifact.\<close>

definition two_findings_query :: string where
  "two_findings_query =
     snd (list_snyk_vulnerabilities [example_raw ''SNYK-0'' ''high'', example_raw ''SNYK-1'' ''high'']
            ''main'' ''org/repo'' ''Dockerfile'' (example_client True))"

section \<open>The reconciler computes a set difference\<close>

lemma fold_labels:
  "fold (\<lambda>label acc'. if startswith label pfx then insert label acc' else acc') ls acc
     = acc \<union> {l. l \<in> set ls \<and> startswith l pfx}"
  apply (induction ls arbitrary: acc)
   apply simp
  apply simp
  apply blast
  done

lemma fold_issues:
  "fold (\<lambda>issue acc. acc \<union> {l. l \<in> set (fields_labels issue) \<and> startswith l pfx})
     jira_issues acc
     = acc \<union> {l. \<exists>issue. issue \<in> set jira_issues \<and> l \<in> set (fields_labels issue)
                   \<and> startswith l pfx}"
proof (induction jira_issues arbitrary: acc)
  case Nil
  show ?case by simp
next
  case (Cons i rest)
  have "fold (\<lambda>issue acc. acc \<union> {l. l \<in> set (fields_labels issue) \<and> startswith l pfx})
          (i # rest) acc
      = (acc \<union> {l. l \<in> set (fields_labels i) \<and> startswith l pfx})
        \<union> {l. \<exists>issue. issue \<in> set rest \<and> l \<in> set (fields_labels issue)
                   \<and> startswith l pfx}"
    by (simp only: fold_simps Cons.IH o_apply)
  also have "\<dots> = acc \<union> {l. \<exists>issue. issue \<in> set (i # rest)
                              \<and> l \<in> set (fields_labels issue) \<and> startswith l pfx}"
    by (simp only: set_simps) blast
  finally show ?case .
qed

lemma collect_labels_set:
  "collect_labels jira_issues pfx =
     {l. \<exists>issue. issue \<in> set jira_issues \<and> l \<in> set (fields_labels issue)
          \<and> startswith l pfx}"
proof -
  have inner:
    "(\<lambda>issue. fold (\<lambda>label acc'. if startswith label pfx then insert label acc'
                                 else acc') (fields_labels issue))
     = (\<lambda>issue acc. acc \<union> {l. l \<in> set (fields_labels issue) \<and> startswith l pfx})"
    by (intro ext) (rule fold_labels)
  show ?thesis
    unfolding collect_labels_def inner by (simp only: fold_issues Un_empty_left)
qed

lemma collect_labels_tracked:
  "ident \<in> collect_labels jira_issues pfx \<longleftrightarrow> spec_tracked jira_issues pfx ident"
  by (auto simp: collect_labels_set spec_tracked_def list_ex_iff)

lemma compare_filter:
  "compare_jira_snyk fs jira_issues pfx =
     filter (\<lambda>v. \<not> spec_tracked jira_issues pfx (get_jira_snyk_id v)) fs"
  by (simp add: compare_jira_snyk_def collect_labels_tracked)

lemma example_finding_id:
  "get_jira_snyk_id (example_finding vid) = ''p:org/repo:Dockerfile:main:'' @ vid"
  by (simp add: example_finding_def vulnerability_obj_def jira_snyk_id_of_def
        example_client_def example_raw_def)

text \<open>
  Claim C1. A finding is in the result of \<open>compare_jira_snyk\<close> exactly when it is an
  input finding whose tracking identity is not among the labels, starting with the
  label prefix, of the tracked issues. Hence, when the first \<open>k\<close> findings are all
  tracked and the remaining ones are not, the result is exactly the remaining
  findings \<open>F(k+1)..Fn\<close>.
\<close>

theorem compare_jira_snyk_set_difference:
  "(\<forall>v. v \<in> set (compare_jira_snyk fs jira_issues pfx) \<longleftrightarrow>
         v \<in> set fs \<and> \<not> spec_tracked jira_issues pfx (get_jira_snyk_id v))
   \<and> ((\<forall>v \<in> set (take k fs). spec_tracked jira_issues pfx (get_jira_snyk_id v))
        \<and> (\<forall>v \<in> set (drop k fs). \<not> spec_tracked jira_issues pfx (get_jira_snyk_id v))
      \<longrightarrow> compare_jira_snyk fs jira_issues pfx = drop k fs)"
proof (intro conjI impI allI)
  fix v
  show "v \<in> set (compare_jira_snyk fs jira_issues pfx) \<longleftrightarrow>
         v \<in> set fs \<and> \<not> spec_tracked jira_issues pfx (get_jira_snyk_id v)"
    by (simp add: compare_filter)
next
  assume h: "(\<forall>v \<in> set (take k fs). spec_tracked jira_issues pfx (get_jira_snyk_id v))
        \<and> (\<forall>v \<in> set (drop k fs). \<not> spec_tracked jira_issues pfx (get_jira_snyk_id v))"
  let ?P = "\<lambda>v. \<not> spec_tracked jira_issues pfx (get_jira_snyk_id v)"
  have "filter ?P fs = filter ?P (take k fs) @ filter ?P (drop k fs)"
    by (metis append_take_drop_id filter_append)
  also have "filter ?P (take k fs) = []"
    using h by (simp add: filter_empty_conv)
  also have "filter ?P (drop k fs) = drop k fs"
    using h by (simp add: filter_id_conv)
  finally show "compare_jira_snyk fs jira_issues pfx = drop k fs"
    by (simp add: compare_filter)
qed

theorem compare_jira_snyk_set_difference_witness:
  "compare_jira_snyk
     [example_finding ''SNYK-1'', example_finding ''SNYK-2'', example_finding ''SNYK-3'']
     [labelled [''triaged'', ''p:org/repo:Dockerfile:main:SNYK-1'']] ''p:''
   = [example_finding ''SNYK-2'', example_finding ''SNYK-3'']"
  using compare_jira_snyk_set_difference
    [of "[example_finding ''SNYK-1'', example_finding ''SNYK-2'', example_finding ''SNYK-3'']"
        "[labelled [''triaged'', ''p:org/repo:Dockerfile:main:SNYK-1'']]" "''p:''" 1]
  by (simp add: example_finding_id spec_tracked_def labelled_def startswith_def)

text \<open>
  Claim C2. When every finding's tracking identity starts with the label prefix and
  is a label of some tracked issue, \<open>compare_jira_snyk\<close> returns the empty list: a
  repeated run recreates nothing.
\<close>

theorem compare_jira_snyk_idempotent:
  assumes "\<forall>v \<in> set fs. startswith (get_jira_snyk_id v) pfx
             \<and> (\<exists>issue \<in> set jira_issues. get_jira_snyk_id v \<in> set (fields_labels issue))"
  shows "compare_jira_snyk fs jira_issues pfx = []"
proof -
  have "\<forall>v \<in> set fs. spec_tracked jira_issues pfx (get_jira_snyk_id v)"
    using assms unfolding spec_tracked_def list_ex_iff by blast
  then show ?thesis
    by (simp add: compare_filter filter_empty_conv)
qed

theorem compare_jira_snyk_idempotent_witness:
  "compare_jira_snyk [example_finding ''SNYK-1'', example_finding ''SNYK-2'']
     [labelled [''p:org/repo:Dockerfile:main:SNYK-2''],
      labelled [''triaged'', ''p:org/repo:Dockerfile:main:SNYK-1'']] ''p:'' = []"
  using compare_jira_snyk_idempotent
    [of "[example_finding ''SNYK-1'', example_finding ''SNYK-2'']" "''p:''"
        "[labelled [''p:org/repo:Dockerfile:main:SNYK-2''],
          labelled [''triaged'', ''p:org/repo:Dockerfile:main:SNYK-1'']]"]
  by (simp add: example_finding_id labelled_def startswith_def)

text \<open>
  Claim C10. The result of \<open>compare_jira_snyk\<close> is a subsequence of the input
  findings: the same elements in the same relative order, none repeated beyond the
  input and none that the input does not hold.
\<close>

theorem compare_jira_snyk_subseq:
  "subseq (compare_jira_snyk fs jira_issues pfx) fs"
  by (simp add: compare_jira_snyk_def)

section \<open>The query built for a list of findings\<close>

lemma list_snyk_loop_eq:
  "list_snyk_loop vs b n f jc (pv, q) =
     (pv @ map (\<lambda>v. vulnerability_obj v b n f jc) vs,
      q @ concat (map (\<lambda>v. query_clause (get_jira_snyk_id (vulnerability_obj v b n f jc)))
                    vs))"
  by (induction vs arbitrary: pv q) (simp_all add: Let_def)

lemma drop_last2_OR: "drop_last2 (s @ ''OR'') = s"
  by (simp add: drop_last2_def)

lemma drop_last2_clauses:
  "ids \<noteq> [] \<Longrightarrow> drop_last2 (q @ concat (map query_clause ids)) = q @ or_clauses ids"
proof (induction ids arbitrary: q rule: or_clauses.induct)
  case 1
  then show ?case by simp
next
  case (2 i)
  have "q @ concat (map query_clause [i])
        = (q @ '' labels='' @ [CHR 0x22] @ i @ [CHR 0x22] @ '' '') @ ''OR''"
    by (simp add: query_clause_def)
  then have "drop_last2 (q @ concat (map query_clause [i]))
        = q @ '' labels='' @ [CHR 0x22] @ i @ [CHR 0x22] @ '' ''"
    by (simp only: drop_last2_OR)
  then show ?case by simp
next
  case (3 i j rest)
  have ih: "drop_last2 ((q @ query_clause i) @ concat (map query_clause (j # rest)))
        = (q @ query_clause i) @ or_clauses (j # rest)"
    by (rule 3) simp
  have l: "q @ concat (map query_clause (i # j # rest))
        = (q @ query_clause i) @ concat (map query_clause (j # rest))"
    by simp
  have r: "q @ or_clauses (i # j # rest) = (q @ query_clause i) @ or_clauses (j # rest)"
    by (simp add: query_clause_def)
  show ?case by (simp only: l r ih)
qed

text \<open>
  Claim C6, as amended. For a non-empty list of raw findings, the query is
  \<open>project=<projectId> AND (\<close>, then one clause \<open> labels="<identity>" \<close> per finding
  in order, the clauses separated by \<open>OR\<close>, then \<open>)\<close>: the field is \<open>labels\<close>, there
  is a blank after the opening and before the closing parenthesis, and no \<open>OR\<close>
  follows the last clause. The findings returned with it are the raw findings in
  order, each with the identity that the query names.
\<close>

theorem query_construction:
  assumes "vs \<noteq> []"
  shows "list_snyk_vulnerabilities vs b n f jc =
           (map (\<lambda>v. vulnerability_obj v b n f jc) vs,
            ''project='' @ get_project_id jc @ '' AND (''
            @ or_clauses
                (map (\<lambda>v. jira_snyk_id_of (get_jira_label_prefix jc) n f b (raw_id v)) vs)
            @ '')'')"
proof -
  let ?ids = "map (\<lambda>v. jira_snyk_id_of (get_jira_label_prefix jc) n f b (raw_id v)) vs"
  have ids: "map (\<lambda>v. query_clause (get_jira_snyk_id (vulnerability_obj v b n f jc))) vs
             = map query_clause ?ids"
    by (simp add: vulnerability_obj_def)
  have "?ids \<noteq> []" using assms by simp
  then have "drop_last2 ((''project='' @ get_project_id jc @ '' AND ('')
                         @ concat (map query_clause ?ids))
             = (''project='' @ get_project_id jc @ '' AND ('') @ or_clauses ?ids"
    by (rule drop_last2_clauses)
  then show ?thesis
    unfolding list_snyk_vulnerabilities_def list_snyk_loop_eq ids by simp
qed

theorem query_construction_witness:
  "list_snyk_vulnerabilities [example_raw ''A'' ''high'', example_raw ''B'' ''critical'']
      ''main'' ''org/repo'' ''Dockerfile'' (example_client True) =
     ([vulnerability_obj (example_raw ''A'' ''high'') ''main'' ''org/repo'' ''Dockerfile''
         (example_client True),
       vulnerability_obj (example_raw ''B'' ''critical'') ''main'' ''org/repo'' ''Dockerfile''
         (example_client True)],
      ''project=PROJ AND ( labels='' @ [CHR 0x22] @ ''p:org/repo:Dockerfile:main:A''
      @ [CHR 0x22] @ '' OR labels='' @ [CHR 0x22] @ ''p:org/repo:Dockerfile:main:B''
      @ [CHR 0x22] @ '' )'')"
  using query_construction
    [of "[example_raw ''A'' ''high'', example_raw ''B'' ''critical'']" "''main''"
        "''org/repo''" "''Dockerfile''" "example_client True"]
  by (simp add: jira_snyk_id_of_def example_client_def example_raw_def)

text \<open>
  The claim as first stated fails: for the scanner ids \<open>A\<close> and \<open>B\<close>, prefix \<open>p:\<close> and
  project \<open>PROJ\<close>, the findings get the identities below, and the query is not
  \<open>project=PROJ AND (label="id1" OR label="id2")\<close> over them.
\<close>

theorem query_construction_counterexample:
  "map get_jira_snyk_id
     (fst (list_snyk_vulnerabilities [example_raw ''A'' ''high'', example_raw ''B'' ''critical'']
             ''main'' ''org/repo'' ''Dockerfile'' (example_client True)))
     = [''p:org/repo:Dockerfile:main:A'', ''p:org/repo:Dockerfile:main:B'']
   \<and> snd (list_snyk_vulnerabilities [example_raw ''A'' ''high'', example_raw ''B'' ''critical'']
             ''main'' ''org/repo'' ''Dockerfile'' (example_client True))
     \<noteq> ''project=PROJ AND (label='' @ [CHR 0x22] @ ''p:org/repo:Dockerfile:main:A''
        @ [CHR 0x22] @ '' OR label='' @ [CHR 0x22] @ ''p:org/repo:Dockerfile:main:B''
        @ [CHR 0x22] @ '')''"
  by (simp add: list_snyk_vulnerabilities_def Let_def vulnerability_obj_def
        jira_snyk_id_of_def query_clause_def drop_last2_def example_client_def
        example_raw_def)




section \<open>The tracking identity\<close>

lemma split_at_first:
  "c \<notin> set xs \<Longrightarrow> c \<notin> set xs' \<Longrightarrow> xs @ c # ys = xs' @ c # ys'
     \<Longrightarrow> xs = xs' \<and> ys = ys'"
proof (induction xs arbitrary: xs')
  case Nil
  then show ?case by (cases xs') auto
next
  case (Cons a xs)
  then show ?case by (cases xs') auto
qed

text \<open>
  Claim C8, as amended. For tuples whose artifact name, file path and branch hold no
  \<open>:\<close> (the scanner id may), two identities built with the same prefix are equal
  exactly when the tuples are equal.
\<close>

theorem identity_injective:
  assumes "CHR '':'' \<notin> set n1 \<union> set f1 \<union> set b1"
      and "CHR '':'' \<notin> set n2 \<union> set f2 \<union> set b2"
  shows "jira_snyk_id_of pfx n1 f1 b1 i1 = jira_snyk_id_of pfx n2 f2 b2 i2
         \<longleftrightarrow> (n1, f1, b1, i1) = (n2, f2, b2, i2)"
proof
  assume "jira_snyk_id_of pfx n1 f1 b1 i1 = jira_snyk_id_of pfx n2 f2 b2 i2"
  then have a: "n1 @ CHR '':'' # (f1 @ CHR '':'' # (b1 @ CHR '':'' # i1))
         = n2 @ CHR '':'' # (f2 @ CHR '':'' # (b2 @ CHR '':'' # i2))"
    by (simp add: jira_snyk_id_of_def)
  have c1: "CHR '':'' \<notin> set n1" "CHR '':'' \<notin> set f1" "CHR '':'' \<notin> set b1"
    using assms(1) by simp_all
  have c2: "CHR '':'' \<notin> set n2" "CHR '':'' \<notin> set f2" "CHR '':'' \<notin> set b2"
    using assms(2) by simp_all
  have n: "n1 = n2 \<and> f1 @ CHR '':'' # (b1 @ CHR '':'' # i1)
                     = f2 @ CHR '':'' # (b2 @ CHR '':'' # i2)"
    using a by (rule split_at_first [OF c1(1) c2(1)])
  have f: "f1 = f2 \<and> b1 @ CHR '':'' # i1 = b2 @ CHR '':'' # i2"
    using conjunct2 [OF n] by (rule split_at_first [OF c1(2) c2(2)])
  have "b1 = b2 \<and> i1 = i2"
    using conjunct2 [OF f] by (rule split_at_first [OF c1(3) c2(3)])
  with n f show "(n1, f1, b1, i1) = (n2, f2, b2, i2)" by simp
next
  assume "(n1, f1, b1, i1) = (n2, f2, b2, i2)"
  then show "jira_snyk_id_of pfx n1 f1 b1 i1 = jira_snyk_id_of pfx n2 f2 b2 i2" by simp
qed

theorem identity_injective_witness:
  "jira_snyk_id_of ''p:'' ''org/repo'' ''Dockerfile'' ''main'' ''SNYK:1''
   \<noteq> jira_snyk_id_of ''p:'' ''org/repo'' ''Dockerfile'' ''dev'' ''SNYK:1''"
  using identity_injective
    [of "''org/repo''" "''Dockerfile''" "''main''" "''org/repo''" "''Dockerfile''" "''dev''"
        "''p:''" "''SNYK:1''" "''SNYK:1''"]
  by simp

text \<open>
  The claim as first stated fails for arbitrary strings: two distinct tuples, one
  with a \<open>:\<close> in the artifact name and one with it in the file path, get the same
  identity.
\<close>

theorem identity_collision_counterexample:
  "jira_snyk_id_of ''p:'' ''a:b'' ''c'' ''main'' ''SNYK-1''
     = jira_snyk_id_of ''p:'' ''a'' ''b:c'' ''main'' ''SNYK-1''
   \<and> (''a:b'', ''c'', ''main'', ''SNYK-1'') \<noteq> (''a'', ''b:c'', ''main'', ''SNYK-1'')"
  by (simp add: jira_snyk_id_of_def)

section \<open>The orchestrator and the issue creator\<close>

lemma loop_stops:
  "process_vulnerabilities_loop env jc vs q pid slug epic False start_at tr
     = Some (Inr (), tr)"
  by (subst process_vulnerabilities_loop.simps) simp

lemma list_existing_cases:
  "list_existing_jira_issues env q start_at m tr =
     (case search_issues env tr q start_at m of
        Inl e \<Rightarrow> (Inl e, tr @ [Search_issues q start_at m])
      | Inr issues \<Rightarrow> (Inr (issues, False), tr @ [Search_issues q start_at m]))"
  by (simp add: list_existing_jira_issues_def)

text \<open>
  \<open>process_vulnerabilities\<close> always returns, after exactly one search, at offset 0:
  the second component of \<open>list_existing_jira_issues\<close> ends the loop after its first
  pass.
\<close>

lemma process_vulnerabilities_once:
  "process_vulnerabilities env jc vs q pid slug epic tr =
     Some (case search_issues env tr q 0 50 of
             Inl e \<Rightarrow> (Inl e, tr @ [Search_issues q 0 50])
           | Inr jira_issues \<Rightarrow>
               (if compare_jira_snyk vs jira_issues (get_jira_label_prefix jc) \<noteq> [] then
                  create_jira_issues env jc
                    (compare_jira_snyk vs jira_issues (get_jira_label_prefix jc))
                    (get_project_id jc) pid slug epic (tr @ [Search_issues q 0 50])
                else (Inr (), tr @ [Search_issues q 0 50])))"
proof (cases "search_issues env tr q 0 50")
  case (Inl e)
  then show ?thesis
    unfolding process_vulnerabilities_def
    by (subst process_vulnerabilities_loop.simps) (simp add: list_existing_cases)
next
  case found: (Inr jira_issues)
  show ?thesis
  proof (cases "create_jira_issues env jc
                    (compare_jira_snyk vs jira_issues (get_jira_label_prefix jc))
                    (get_project_id jc) pid slug epic (tr @ [Search_issues q 0 50])")
    case (Pair r tr2)
    show ?thesis
    proof (cases r)
      case (Inl e)
      with Pair found show ?thesis
        unfolding process_vulnerabilities_def
        by (subst process_vulnerabilities_loop.simps)
           (simp add: list_existing_cases loop_stops Let_def)
    next
      case (Inr u)
      with Pair found show ?thesis
        unfolding process_vulnerabilities_def
        by (subst process_vulnerabilities_loop.simps)
           (simp add: list_existing_cases loop_stops Let_def)
    qed
  qed
qed

lemma severities_kept:
  "map get_severity (fst (list_snyk_vulnerabilities vs b n f jc)) = map issueData_severity vs"
  by (simp add: list_snyk_vulnerabilities_def list_snyk_loop_eq vulnerability_obj_def)

lemma parse_example:
  "parse_project_name ''org/repo(main):Dockerfile'' ''main'' = ''org/repo''"
  "parse_file_name ''org/repo(main):Dockerfile'' = ''Dockerfile''"
  by (simp_all add: parse_project_name_def parse_file_name_def str_partition_def
        removesuffix_def endswith_def)

lemma example_query:
  "list_snyk_vulnerabilities [example_raw ''SNYK-1'' sev] ''main'' ''org/repo'' ''Dockerfile''
     (example_client dry) =
     ([vulnerability_obj (example_raw ''SNYK-1'' sev) ''main'' ''org/repo'' ''Dockerfile''
         (example_client dry)],
      ''project=PROJ AND ( labels='' @ [CHR 0x22] @ ''p:org/repo:Dockerfile:main:SNYK-1''
      @ [CHR 0x22] @ '' )'')"
  by (simp add: list_snyk_vulnerabilities_def Let_def vulnerability_obj_def
        jira_snyk_id_of_def query_clause_def drop_last2_def example_client_def
        example_raw_def)

lemma example_client_fields:
  "get_jira_label_prefix (example_client dry) = ''p:''"
  "get_project_id (example_client dry) = ''PROJ''"
  "is_dry_run (example_client dry) = dry"
  by (simp_all add: example_client_def)

lemma example_project_fields:
  "p_name (example_project found) = ''org/repo(main):Dockerfile''"
  "p_branch (example_project found) = ''main''"
  "p_issues (example_project found) = found"
  by (simp_all add: example_project_def)

lemma example_compare_untracked:
  "compare_jira_snyk
     [vulnerability_obj (example_raw ''SNYK-1'' sev) ''main'' ''org/repo'' ''Dockerfile''
        (example_client True)] [] ''p:''
   = [vulnerability_obj (example_raw ''SNYK-1'' sev) ''main'' ''org/repo'' ''Dockerfile''
        (example_client True)]"
  by (simp add: compare_jira_snyk_def collect_labels_def)

lemma example_search_empty: "search_issues (example_env []) tr q 0 50 = Inr []"
  by (simp add: example_env_def)

text \<open>
  Claim C9. With the dry-run flag set, \<open>create_jira_issues\<close> returns normally and
  adds exactly one event to the trace, the printed report, whose count is the number
  of findings passed in; no create call and no add-to-epic call is made.
\<close>

theorem dry_run_no_mutation:
  assumes "is_dry_run jc"
  shows "create_jira_issues env jc vs jpid spid slug epic tr =
           (Inr (), tr @ [Print (''dry run. No issues created. ('' @ str_nat (length vs)
                                 @ '' issues would be created)'')])
         \<and> filter is_tracker_call (snd (create_jira_issues env jc vs jpid spid slug epic tr))
           = filter is_tracker_call tr"
  using assms by (simp add: create_jira_issues_def)

theorem dry_run_no_mutation_witness:
  "create_jira_issues (example_env []) (example_client True)
     [example_finding ''SNYK-1'', example_finding ''SNYK-2''] ''PROJ'' ''snyk-project-1''
     ''my-org'' ''EPIC-1'' [] =
     (Inr (), [Print ''dry run. No issues created. (2 issues would be created)''])"
  using dry_run_no_mutation
    [of "example_client True" "example_env []"
        "[example_finding ''SNYK-1'', example_finding ''SNYK-2'']" "''PROJ''"
        "''snyk-project-1''" "''my-org''" "''EPIC-1''" "[]"]
  by (simp add: example_client_def str_nat.simps)

text \<open>
  Claim C3 does not hold of the code. The artifact \<open>org/repo\<close> has the exclusion
  pattern \<open>Dockerfile\<close>, which matches its file path \<open>Dockerfile\<close>; the run writes the
  log line that the file is skipped and then goes on: the finding reaches the query
  builder, the search, the reconciler and the issue creator.
\<close>

theorem exclusion_not_applied:
  "exclude_file (example_env []) ''Dockerfile'' [''Dockerfile''] = Inr True
   \<and> process_projects (example_env []) (example_client True)
       (example_project [example_raw ''SNYK-1'' ''high''])
       [''org/repo'' \<mapsto> [''Dockerfile'']] ''EPIC-1'' [] =
     Some (Inr (),
       [Log_info ''skipping file Dockerfile, because of the record in exclude_file.json'',
        Log_info ''looking for vulnerabilities in: org/repo, file: Dockerfile, branch: main'',
        Search_issues (''project=PROJ AND ( labels='' @ [CHR 0x22]
                       @ ''p:org/repo:Dockerfile:main:SNYK-1'' @ [CHR 0x22] @ '' )'') 0 50,
        Print ''dry run. No issues created. (1 issues would be created)''])"
proof -
  have ex: "re_search (example_env []) ''Dockerfile'' ''Dockerfile'' = Inr True"
    by (simp add: example_env_def startswith_def)
  show ?thesis
    by (simp add: ex process_projects_def process_projects_rest_def
          example_project_fields parse_example
          example_query process_vulnerabilities_once example_search_empty
          example_client_fields example_compare_untracked create_jira_issues_def
          str_nat.simps)
qed

text \<open>
  Claim C4 does not hold of the code. The severity \<open>low\<close> is not in
  \<open>VULNERABILITY_SEVERITIES\<close>, yet a finding of that severity is normalized, queried
  for, reconciled and handed to the issue creator.
\<close>

theorem severity_not_filtered:
  "''low'' \<notin> set VULNERABILITY_SEVERITIES
   \<and> map get_severity
         (fst (list_snyk_vulnerabilities [example_raw ''SNYK-1'' ''low''] ''main'' ''org/repo''
                 ''Dockerfile'' (example_client True))) = [''low'']
   \<and> process_projects (example_env []) (example_client True)
         (example_project [example_raw ''SNYK-1'' ''low'']) Map.empty ''EPIC-1'' [] =
       Some (Inr (),
         [Log_info ''looking for vulnerabilities in: org/repo, file: Dockerfile, branch: main'',
          Search_issues (''project=PROJ AND ( labels='' @ [CHR 0x22]
                         @ ''p:org/repo:Dockerfile:main:SNYK-1'' @ [CHR 0x22] @ '' )'') 0 50,
          Print ''dry run. No issues created. (1 issues would be created)''])"
proof (intro conjI)
  show "''low'' \<notin> set VULNERABILITY_SEVERITIES"
    by (simp add: VULNERABILITY_SEVERITIES_def)
next
  show "map get_severity
         (fst (list_snyk_vulnerabilities [example_raw ''SNYK-1'' ''low''] ''main'' ''org/repo''
                 ''Dockerfile'' (example_client True))) = [''low'']"
    by (simp add: severities_kept example_raw_def)
next
  show "process_projects (example_env []) (example_client True)
         (example_project [example_raw ''SNYK-1'' ''low'']) Map.empty ''EPIC-1'' [] =
       Some (Inr (),
         [Log_info ''looking for vulnerabilities in: org/repo, file: Dockerfile, branch: main'',
          Search_issues (''project=PROJ AND ( labels='' @ [CHR 0x22]
                         @ ''p:org/repo:Dockerfile:main:SNYK-1'' @ [CHR 0x22] @ '' )'') 0 50,
          Print ''dry run. No issues created. (1 issues would be created)''])"
    by (simp add: process_projects_def process_projects_rest_def
          example_project_fields parse_example
          example_query process_vulnerabilities_once example_search_empty
          example_client_fields example_compare_untracked create_jira_issues_def
          str_nat.simps)
qed

text \<open>
  Claim C5 does not hold of the code. The tracker serves a full page at offset 0, a
  full page at offset 50 and an empty page at offset 100, and the finding \<open>SNYK-1\<close>
  is tracked by the last issue of the second page. The run makes one search, at
  offset 0, never reads the second page, and reports \<open>SNYK-1\<close> as an issue to create.
\<close>

theorem pagination_single_page:
  "search_issues (example_env two_full_pages) [] two_findings_query 0 50
     = Inr (replicate 50 (labelled [''p:org/repo:Dockerfile:main:SNYK-0'']))
   \<and> search_issues (example_env two_full_pages) [Search_issues two_findings_query 0 50]
        two_findings_query 50 50
     = Inr (replicate 49 (labelled [''p:org/repo:Dockerfile:main:SNYK-0''])
            @ [labelled [''p:org/repo:Dockerfile:main:SNYK-1'']])
   \<and> search_issues (example_env two_full_pages)
        [Search_issues two_findings_query 0 50, Search_issues two_findings_query 50 50]
        two_findings_query 100 50 = Inr []
   \<and> spec_tracked two_full_pages ''p:'' (get_jira_snyk_id (example_finding ''SNYK-1''))
   \<and> process_vulnerabilities (example_env two_full_pages) (example_client True)
         [example_finding ''SNYK-0'', example_finding ''SNYK-1''] two_findings_query
         ''snyk-project-1'' ''my-org'' ''EPIC-1'' [] =
       Some (Inr (),
         [Search_issues two_findings_query 0 50,
          Print ''dry run. No issues created. (1 issues would be created)''])"
proof (intro conjI)
  show p1: "search_issues (example_env two_full_pages) [] two_findings_query 0 50
     = Inr (replicate 50 (labelled [''p:org/repo:Dockerfile:main:SNYK-0'']))"
    by (simp add: example_env_def two_full_pages_def)
  show "search_issues (example_env two_full_pages) [Search_issues two_findings_query 0 50]
          two_findings_query 50 50
     = Inr (replicate 49 (labelled [''p:org/repo:Dockerfile:main:SNYK-0''])
            @ [labelled [''p:org/repo:Dockerfile:main:SNYK-1'']])"
    by (simp add: example_env_def two_full_pages_def)
  show "search_issues (example_env two_full_pages)
          [Search_issues two_findings_query 0 50, Search_issues two_findings_query 50 50]
          two_findings_query 100 50 = Inr []"
    by (simp add: example_env_def two_full_pages_def)
  show "spec_tracked two_full_pages ''p:'' (get_jira_snyk_id (example_finding ''SNYK-1''))"
    by (simp add: spec_tracked_def two_full_pages_def example_finding_id labelled_def
          startswith_def)
  have page_labels:
    "collect_labels (replicate 50 (labelled [''p:org/repo:Dockerfile:main:SNYK-0''])) ''p:''
     = {''p:org/repo:Dockerfile:main:SNYK-0''}"
    by (auto simp: collect_labels_set labelled_def startswith_def)
  have cmp: "compare_jira_snyk [example_finding ''SNYK-0'', example_finding ''SNYK-1'']
               (replicate 50 (labelled [''p:org/repo:Dockerfile:main:SNYK-0''])) ''p:''
             = [example_finding ''SNYK-1'']"
    by (simp add: compare_jira_snyk_def page_labels example_finding_id)
  show "process_vulnerabilities (example_env two_full_pages) (example_client True)
         [example_finding ''SNYK-0'', example_finding ''SNYK-1''] two_findings_query
         ''snyk-project-1'' ''my-org'' ''EPIC-1'' [] =
       Some (Inr (),
         [Search_issues two_findings_query 0 50,
          Print ''dry run. No issues created. (1 issues would be created)''])"
    by (simp add: process_vulnerabilities_once p1 example_client_fields cmp
          create_jira_issues_def str_nat.simps)
qed

end
